theory Spec2Isabelle
  imports Complex_Main
begin

section \<open>Data model\<close>

text \<open>
  The two source files, \<^verbatim>\<open>basic_vae_module.py\<close> and \<^verbatim>\<open>template.py\<close>, each define a
  class \<^verbatim>\<open>BasicVAE\<close>. Tensor elements are modelled as real numbers: rounding, overflow,
  underflow, \<^verbatim>\<open>nan\<close> and \<^verbatim>\<open>inf\<close> of IEEE arithmetic are outside the model. Where the
  source would compute \<^verbatim>\<open>nan\<close> or \<^verbatim>\<open>inf\<close> from real inputs (the logarithm of a
  non-positive number, the mean of no elements) the model returns the failure
  \<open>Not_a_real\<close>; where the library raises, it returns the matching failure.

  A tensor of shape [batch, features] is a list of rows. Operations that combine two
  tensors elementwise require equal shapes here and return \<open>Shape_error\<close> otherwise
  (the library broadcasts some unequal shapes; that is not modelled).
\<close>

datatype failure =
    AttributeError
  | Shape_error
  | Range_error
  | View_error
  | Stack_empty
  | Not_a_real
  | Bad_reference

type_synonym vec = "real list"
type_synonym tensor2 = "real list list"
type_synonym image = "real list list list"
type_synonym images = "image list"

subsection \<open>Configuration\<close>

text \<open>
  \<^verbatim>\<open>hparams\<close> is an object whose attributes may be present or absent
  (\<^verbatim>\<open>hasattr\<close>); \<^verbatim>\<open>hparams=None\<close> has none of them. Each attribute is an option.
\<close>

record hparams =
  hp_hidden_dim :: "int option"
  hp_latent_dim :: "int option"
  hp_input_width :: "int option"
  hp_input_height :: "int option"
  hp_batch_size :: "int option"

record vae_fields =
  hidden_dim :: int
  latent_dim :: int
  input_width :: int
  input_height :: int
  batch_size :: int

text \<open>
  \<^verbatim>\<open>hparams.a if hasattr(hparams, 'a') else d\<close>, for the attribute read being the one
  tested.
\<close>

definition attr_or :: "int option \<Rightarrow> int \<Rightarrow> int" where
  "attr_or a d = (case a of Some v \<Rightarrow> v | None \<Rightarrow> d)"

text \<open>
  \<^verbatim>\<open>__check_hparams\<close> (basic_vae_module.py, lines 31-36). The last line tests
  \<^verbatim>\<open>batch_size\<close> and reads \<^verbatim>\<open>input_height\<close>; reading an absent attribute raises
  \<^verbatim>\<open>AttributeError\<close>.
\<close>

definition check_hparams :: "hparams \<Rightarrow> failure + vae_fields" where
  "check_hparams hp =
     (let hdim = attr_or (hp_hidden_dim hp) 128;
          ldim = attr_or (hp_latent_dim hp) 32;
          iw = attr_or (hp_input_width hp) 28;
          ih = attr_or (hp_input_height hp) 28
      in case hp_batch_size hp of
           None \<Rightarrow> Inr \<lparr>hidden_dim = hdim, latent_dim = ldim, input_width = iw,
                         input_height = ih, batch_size = 32\<rparr>
         | Some _ \<Rightarrow>
             (case hp_input_height hp of
                None \<Rightarrow> Inl AttributeError
              | Some h \<Rightarrow> Inr \<lparr>hidden_dim = hdim, latent_dim = ldim, input_width = iw,
                               input_height = ih, batch_size = h\<rparr>))"

text \<open>
  \<^verbatim>\<open>__init__\<close> of template.py (lines 23-27): the four dimensions are locals handed to
  the encoder and decoder constructors, \<^verbatim>\<open>batch_size\<close> is stored with the same line as
  above.
\<close>

definition init_template :: "hparams \<Rightarrow> failure + vae_fields" where
  "init_template hp =
     (let hidden_dim = attr_or (hp_hidden_dim hp) 128;
          latent_dim = attr_or (hp_latent_dim hp) 32;
          input_width = attr_or (hp_input_width hp) 28;
          input_height = attr_or (hp_input_height hp) 28
      in case hp_batch_size hp of
           None \<Rightarrow> Inr \<lparr>hidden_dim = hidden_dim, latent_dim = latent_dim,
                         input_width = input_width, input_height = input_height,
                         batch_size = 32\<rparr>
         | Some _ \<Rightarrow>
             (case hp_input_height hp of
                None \<Rightarrow> Inl AttributeError
              | Some h \<Rightarrow> Inr \<lparr>hidden_dim = hidden_dim, latent_dim = latent_dim,
                               input_width = input_width, input_height = input_height,
                               batch_size = h\<rparr>))"

subsection \<open>Tensor operations of the library\<close>

text \<open>
  The operations of \<^verbatim>\<open>torch\<close> that the two classes call, over lists of rows.
  \<open>same_shape\<close> compares the row lengths of two tensors.
\<close>

definition same_shape :: "'a list list \<Rightarrow> 'b list list \<Rightarrow> bool" where
  "same_shape a b = (map length a = map length b)"

definition ew1 :: "('a \<Rightarrow> 'b) \<Rightarrow> 'a list list \<Rightarrow> 'b list list" where
  "ew1 f a = map (map f) a"

definition ew2 :: "('a \<Rightarrow> 'b \<Rightarrow> 'c) \<Rightarrow> 'a list list \<Rightarrow> 'b list list \<Rightarrow> 'c list list" where
  "ew2 f a b = map2 (map2 f) a b"

definition zeros_like :: "tensor2 \<Rightarrow> tensor2" where
  "zeros_like a = ew1 (\<lambda>_. 0) a"

definition ones_like :: "tensor2 \<Rightarrow> tensor2" where
  "ones_like a = ew1 (\<lambda>_. 1) a"

text \<open>\<^verbatim>\<open>t / c\<close> for a scalar \<open>c\<close>, and \<^verbatim>\<open>torch.exp\<close>.\<close>

definition tdiv :: "tensor2 \<Rightarrow> real \<Rightarrow> tensor2" where
  "tdiv a c = ew1 (\<lambda>v. v / c) a"

definition torch_exp :: "tensor2 \<Rightarrow> tensor2" where
  "torch_exp a = ew1 exp a"

text \<open>\<^verbatim>\<open>a - b\<close> on tensors and \<^verbatim>\<open>a + b\<close> on vectors of per-sample values.\<close>

definition tsub :: "tensor2 \<Rightarrow> tensor2 \<Rightarrow> failure + tensor2" where
  "tsub a b = (if same_shape a b then Inr (ew2 (\<lambda>u v. u - v) a b) else Inl Shape_error)"

definition vadd :: "vec \<Rightarrow> vec \<Rightarrow> failure + vec" where
  "vadd a b = (if length a = length b then Inr (map2 (\<lambda>u v. u + v) a b) else Inl Shape_error)"

text \<open>
  \<^verbatim>\<open>t.sum(dim=-1)\<close>, which on a tensor of two dimensions is also \<^verbatim>\<open>t.sum(dim=1)\<close>:
  one sum per row.
\<close>

definition sum_last :: "tensor2 \<Rightarrow> vec" where
  "sum_last a = map sum_list a"

text \<open>
  \<^verbatim>\<open>v.mean()\<close>: the mean of no elements is \<^verbatim>\<open>nan\<close> in the library.
\<close>

definition mean :: "vec \<Rightarrow> failure + real" where
  "mean v = (if v = [] then Inl Not_a_real else Inr (sum_list v / real (length v)))"

text \<open>
  \<^verbatim>\<open>x.view(x.size(0), -1)\<close> on a batch of images [batch, channels, height, width]:
  every image becomes one row. With \<^verbatim>\<open>x.size(0) = 0\<close> the library cannot infer the
  dimension \<^verbatim>\<open>-1\<close> and raises.
\<close>

definition flatten_image :: "image \<Rightarrow> vec" where
  "flatten_image img = concat (concat img)"

definition view_flat :: "images \<Rightarrow> failure + tensor2" where
  "view_flat x = (if x = [] then Inl View_error else Inr (map flatten_image x))"

text \<open>
  \<^verbatim>\<open>F.binary_cross_entropy(input, target, reduction='none')\<close>: the library raises when
  the sizes differ and when an element of \<^verbatim>\<open>input\<close> is outside [0, 1]; it clamps each
  logarithm from below at -100, so that the logarithm of 0 counts as -100.
\<close>

definition clamp_log :: "real \<Rightarrow> real" where
  "clamp_log v = (if v \<le> 0 then - 100 else max (ln v) (- 100))"

definition bce_elem :: "real \<Rightarrow> real \<Rightarrow> real" where
  "bce_elem p t = - (t * clamp_log p + (1 - t) * clamp_log (1 - p))"

definition binary_cross_entropy :: "tensor2 \<Rightarrow> tensor2 \<Rightarrow> failure + tensor2" where
  "binary_cross_entropy input target =
     (if \<not> same_shape input target then Inl Shape_error
      else if (\<exists>row \<in> set input. \<exists>p \<in> set row. p < 0 \<or> 1 < p) then Inl Range_error
      else Inr (ew2 bce_elem input target))"

subsection \<open>The normal distribution of the library\<close>

text \<open>
  \<^verbatim>\<open>distributions.normal.Normal(loc, scale)\<close> keeps its two parameter tensors.
  \<^verbatim>\<open>rsample\<close> draws standard-normal noise of the shape of \<^verbatim>\<open>loc\<close> and returns
  \<^verbatim>\<open>loc + eps * scale\<close>; the noise is the parameter \<open>eps\<close>, the draw for each position
  (sample, latent dimension), which the seed of the generator determines.
  \<^verbatim>\<open>log_prob(value)\<close> is
  \<^verbatim>\<open>-((value - loc) ** 2) / (2 * scale ** 2) - log(scale) - log(sqrt(2 * pi))\<close>.
\<close>

record normal =
  loc :: tensor2
  scale :: tensor2

definition Normal :: "tensor2 \<Rightarrow> tensor2 \<Rightarrow> failure + normal" where
  "Normal l s = (if same_shape l s then Inr \<lparr>loc = l, scale = s\<rparr> else Inl Shape_error)"

definition standard_normal :: "(nat \<Rightarrow> nat \<Rightarrow> real) \<Rightarrow> tensor2 \<Rightarrow> tensor2" where
  "standard_normal eps like =
     map (\<lambda>i. map (\<lambda>j. eps i j) [0..<length (like ! i)]) [0..<length like]"

definition rsample :: "(nat \<Rightarrow> nat \<Rightarrow> real) \<Rightarrow> normal \<Rightarrow> failure + tensor2" where
  "rsample eps d =
     (if same_shape (loc d) (scale d)
      then Inr (ew2 (\<lambda>m n. m + n) (loc d)
                  (ew2 (\<lambda>e s. e * s) (standard_normal eps (loc d)) (scale d)))
      else Inl Shape_error)"

definition log_prob_elem :: "real \<Rightarrow> real \<Rightarrow> real \<Rightarrow> real" where
  "log_prob_elem m s v = - ((v - m)\<^sup>2) / (2 * s\<^sup>2) - ln s - ln (sqrt (2 * pi))"

definition log_prob :: "normal \<Rightarrow> tensor2 \<Rightarrow> failure + tensor2" where
  "log_prob d val =
     (if \<not> (same_shape (loc d) (scale d) \<and> same_shape val (loc d)) then Inl Shape_error
      else if (\<exists>row \<in> set (scale d). \<exists>s \<in> set row. s \<le> 0) then Inl Not_a_real
      else Inr (ew2 (\<lambda>v (m, s). log_prob_elem m s v) val (ew2 Pair (loc d) (scale d))))"

subsection \<open>Failure propagation\<close>

text \<open>
  A statement whose call raises ends the method: \<open>and_then m f\<close> runs \<open>f\<close> on the
  value of \<open>m\<close>, or returns the failure of \<open>m\<close>.
\<close>

definition and_then :: "failure + 'a \<Rightarrow> ('a \<Rightarrow> failure + 'b) \<Rightarrow> failure + 'b" where
  "and_then m f = (case m of Inl e \<Rightarrow> Inl e | Inr v \<Rightarrow> f v)"

section \<open>The step of basic\_vae\_module.py\<close>

text \<open>
  The encoder and the decoder are the parameters \<open>encoder\<close> and \<open>decoder\<close>: functions
  that return their output tensors or fail. \<^verbatim>\<open>get_prior\<close>, lines 46-49, and
  \<^verbatim>\<open>get_approx_posterior\<close>, lines 51-54.
\<close>

definition get_prior :: "tensor2 \<Rightarrow> tensor2 \<Rightarrow> failure + normal" where
  "get_prior z_mu z_std = Normal (zeros_like z_mu) (ones_like z_std)"

definition get_approx_posterior :: "tensor2 \<Rightarrow> tensor2 \<Rightarrow> failure + normal" where
  "get_approx_posterior z_mu z_std = Normal z_mu z_std"

text \<open>\<^verbatim>\<open>forward\<close>, lines 81-82.\<close>

definition forward :: "(tensor2 \<Rightarrow> failure + tensor2) \<Rightarrow> tensor2 \<Rightarrow> failure + tensor2" where
  "forward decoder z = decoder z"

text \<open>\<^verbatim>\<open>elbo_loss\<close>, lines 56-79.\<close>

definition elbo_loss ::
  "(tensor2 \<Rightarrow> failure + tensor2) \<Rightarrow> (nat \<Rightarrow> nat \<Rightarrow> real) \<Rightarrow> tensor2 \<Rightarrow> normal \<Rightarrow> normal
     \<Rightarrow> failure + (real \<times> real \<times> real \<times> tensor2)" where
  "elbo_loss decoder eps x P Q =
     and_then (rsample eps Q) (\<lambda>z.
     and_then (forward decoder z) (\<lambda>pxz.
     and_then (binary_cross_entropy pxz x) (\<lambda>recon_elems.
     let recon_loss = sum_last recon_elems in
     and_then (log_prob Q z) (\<lambda>log_qz.
     and_then (log_prob P z) (\<lambda>log_pz.
     and_then (tsub log_qz log_pz) (\<lambda>kl_elems.
     let kl_div = sum_last kl_elems in
     and_then (vadd recon_loss kl_div) (\<lambda>loss.
     and_then (mean loss) (\<lambda>loss_mean.
     and_then (mean recon_loss) (\<lambda>recon_mean.
     and_then (mean kl_div) (\<lambda>kl_mean.
     Inr (loss_mean, recon_mean, kl_mean, pxz)))))))))))"

text \<open>
  \<^verbatim>\<open>_run_step\<close>, lines 84-96. \<open>step_distributions\<close> is its first part, lines 85-90:
  the encoder call, the standard deviation and the two distributions.
\<close>

definition z_std_of :: "tensor2 \<Rightarrow> tensor2" where
  "z_std_of z_log_var = torch_exp (tdiv z_log_var 2)"

definition step_distributions ::
  "(images \<Rightarrow> failure + tensor2 \<times> tensor2) \<Rightarrow> images \<Rightarrow> failure + (normal \<times> normal)" where
  "step_distributions encoder x =
     and_then (encoder x) (\<lambda>(z_mu, z_log_var).
     let z_std = z_std_of z_log_var in
     and_then (get_prior z_mu z_std) (\<lambda>P.
     and_then (get_approx_posterior z_mu z_std) (\<lambda>Q.
     Inr (P, Q))))"

definition run_step ::
  "(images \<Rightarrow> failure + tensor2 \<times> tensor2) \<Rightarrow> (tensor2 \<Rightarrow> failure + tensor2)
     \<Rightarrow> (nat \<Rightarrow> nat \<Rightarrow> real) \<Rightarrow> images \<times> 'l
     \<Rightarrow> failure + (real \<times> real \<times> real \<times> tensor2)" where
  "run_step encoder decoder eps batch =
     (case batch of (x, _) \<Rightarrow>
      and_then (step_distributions encoder x) (\<lambda>(P, Q).
      and_then (view_flat x) (\<lambda>xf.
      and_then (elbo_loss decoder eps xf P Q) (\<lambda>(loss, recon_loss, kl_div, pxz).
      Inr (loss, recon_loss, kl_div, pxz)))))"

text \<open>
  \<^verbatim>\<open>validation_step\<close>, lines 109-117, and \<^verbatim>\<open>test_step\<close>, lines 133-141: the
  dictionary each returns is a record of its four entries.
\<close>

record val_step_out =
  val_loss :: real
  val_recon_loss :: real
  val_kl_div :: real
  val_pxz :: tensor2

record test_step_out =
  test_loss :: real
  test_recon_loss :: real
  test_kl_div :: real
  test_pxz :: tensor2

definition validation_step ::
  "(images \<Rightarrow> failure + tensor2 \<times> tensor2) \<Rightarrow> (tensor2 \<Rightarrow> failure + tensor2)
     \<Rightarrow> (nat \<Rightarrow> nat \<Rightarrow> real) \<Rightarrow> images \<times> 'l \<Rightarrow> nat \<Rightarrow> failure + val_step_out" where
  "validation_step encoder decoder eps batch batch_idx =
     and_then (run_step encoder decoder eps batch) (\<lambda>(loss, recon_loss, kl_div, pxz).
     Inr \<lparr>val_loss = loss, val_recon_loss = recon_loss, val_kl_div = kl_div,
          val_pxz = pxz\<rparr>)"

definition test_step ::
  "(images \<Rightarrow> failure + tensor2 \<times> tensor2) \<Rightarrow> (tensor2 \<Rightarrow> failure + tensor2)
     \<Rightarrow> (nat \<Rightarrow> nat \<Rightarrow> real) \<Rightarrow> images \<times> 'l \<Rightarrow> nat \<Rightarrow> failure + test_step_out" where
  "test_step encoder decoder eps batch batch_idx =
     and_then (run_step encoder decoder eps batch) (\<lambda>(loss, recon_loss, kl_div, pxz).
     Inr \<lparr>test_loss = loss, test_recon_loss = recon_loss, test_kl_div = kl_div,
          test_pxz = pxz\<rparr>)"

section \<open>Epoch aggregation\<close>

text \<open>
  \<^verbatim>\<open>torch.stack\<close> of a list of scalars is the vector of them; the library raises on
  the empty list. \<^verbatim>\<open>validation_epoch_end\<close>, lines 119-131, and
  \<^verbatim>\<open>test_epoch_end\<close>, lines 143-155, return a dictionary with the average loss and
  the log dictionary, here a list of pairs in the order written.
\<close>

definition stack :: "real list \<Rightarrow> failure + vec" where
  "stack ts = (if ts = [] then Inl Stack_empty else Inr ts)"

record val_epoch_out =
  avg_val_loss :: real
  val_log :: "(string \<times> real) list"

record test_epoch_out =
  avg_test_loss :: real
  test_log :: "(string \<times> real) list"

definition validation_epoch_end :: "val_step_out list \<Rightarrow> failure + val_epoch_out" where
  "validation_epoch_end outputs =
     and_then (and_then (stack (map val_loss outputs)) mean) (\<lambda>avg_loss.
     and_then (and_then (stack (map val_recon_loss outputs)) mean) (\<lambda>recon_loss.
     and_then (and_then (stack (map val_kl_div outputs)) mean) (\<lambda>kl_loss.
     let tensorboard_logs = [(''val_elbo_loss'', avg_loss),
                             (''val_recon_loss'', recon_loss),
                             (''val_kl_loss'', kl_loss)]
     in Inr \<lparr>avg_val_loss = avg_loss, val_log = tensorboard_logs\<rparr>)))"

definition test_epoch_end :: "test_step_out list \<Rightarrow> failure + test_epoch_out" where
  "test_epoch_end outputs =
     and_then (and_then (stack (map test_loss outputs)) mean) (\<lambda>avg_loss.
     and_then (and_then (stack (map test_recon_loss outputs)) mean) (\<lambda>recon_loss.
     and_then (and_then (stack (map test_kl_div outputs)) mean) (\<lambda>kl_loss.
     let tensorboard_logs = [(''test_elbo_loss'', avg_loss),
                             (''test_recon_loss'', recon_loss),
                             (''test_kl_loss'', kl_loss)]
     in Inr \<lparr>avg_test_loss = avg_loss, test_log = tensorboard_logs\<rparr>)))"

section \<open>The step of template.py\<close>

text \<open>
  The class of template.py, translated from its own text: \<^verbatim>\<open>get_prior\<close> (lines 40-43),
  \<^verbatim>\<open>get_approx_posterior\<close> (lines 45-48), \<^verbatim>\<open>elbo_loss\<close> (lines 50-72),
  \<^verbatim>\<open>forward\<close> (lines 74-75) and \<^verbatim>\<open>_run_step\<close> (lines 77-89).
\<close>

definition get_prior_template :: "tensor2 \<Rightarrow> tensor2 \<Rightarrow> failure + normal" where
  "get_prior_template z_mu z_std = Normal (zeros_like z_mu) (ones_like z_std)"

definition get_approx_posterior_template :: "tensor2 \<Rightarrow> tensor2 \<Rightarrow> failure + normal" where
  "get_approx_posterior_template z_mu z_std = Normal z_mu z_std"

definition forward_template ::
  "(tensor2 \<Rightarrow> failure + tensor2) \<Rightarrow> tensor2 \<Rightarrow> failure + tensor2" where
  "forward_template decoder z = decoder z"

definition elbo_loss_template ::
  "(tensor2 \<Rightarrow> failure + tensor2) \<Rightarrow> (nat \<Rightarrow> nat \<Rightarrow> real) \<Rightarrow> tensor2 \<Rightarrow> normal \<Rightarrow> normal
     \<Rightarrow> failure + (real \<times> real \<times> real \<times> tensor2)" where
  "elbo_loss_template decoder eps x P Q =
     and_then (rsample eps Q) (\<lambda>z.
     and_then (forward_template decoder z) (\<lambda>pxz.
     and_then (binary_cross_entropy pxz x) (\<lambda>recon_elems.
     let recon_loss = sum_last recon_elems in
     and_then (log_prob Q z) (\<lambda>log_qz.
     and_then (log_prob P z) (\<lambda>log_pz.
     and_then (tsub log_qz log_pz) (\<lambda>kl_elems.
     let kl_div = sum_last kl_elems in
     and_then (vadd recon_loss kl_div) (\<lambda>loss.
     and_then (mean loss) (\<lambda>loss_mean.
     and_then (mean recon_loss) (\<lambda>recon_mean.
     and_then (mean kl_div) (\<lambda>kl_mean.
     Inr (loss_mean, recon_mean, kl_mean, pxz)))))))))))"

definition run_step_template ::
  "(images \<Rightarrow> failure + tensor2 \<times> tensor2) \<Rightarrow> (tensor2 \<Rightarrow> failure + tensor2)
     \<Rightarrow> (nat \<Rightarrow> nat \<Rightarrow> real) \<Rightarrow> images \<times> 'l
     \<Rightarrow> failure + (real \<times> real \<times> real \<times> tensor2)" where
  "run_step_template encoder decoder eps batch =
     (case batch of (x, _) \<Rightarrow>
      and_then (encoder x) (\<lambda>(z_mu, z_log_var).
      let z_std = torch_exp (tdiv z_log_var 2) in
      and_then (get_prior_template z_mu z_std) (\<lambda>P.
      and_then (get_approx_posterior_template z_mu z_std) (\<lambda>Q.
      and_then (view_flat x) (\<lambda>xf.
      and_then (elbo_loss_template decoder eps xf P Q) (\<lambda>(loss, recon_loss, kl_div, pxz).
      Inr (loss, recon_loss, kl_div, pxz)))))))"

text \<open>\<^verbatim>\<open>test_epoch_end\<close> of template.py, lines 136-148.\<close>

definition test_epoch_end_template :: "test_step_out list \<Rightarrow> failure + test_epoch_out" where
  "test_epoch_end_template outputs =
     and_then (and_then (stack (map test_loss outputs)) mean) (\<lambda>avg_loss.
     and_then (and_then (stack (map test_recon_loss outputs)) mean) (\<lambda>recon_loss.
     and_then (and_then (stack (map test_kl_div outputs)) mean) (\<lambda>kl_loss.
     let tensorboard_logs = [(''test_elbo_loss'', avg_loss),
                             (''test_recon_loss'', recon_loss),
                             (''test_kl_loss'', kl_loss)]
     in Inr \<lparr>avg_test_loss = avg_loss, test_log = tensorboard_logs\<rparr>)))"

section \<open>Quantities named by the specification\<close>

text \<open>
  The per-sample reconstruction loss and the per-sample KL term, written with indices:
  sample \<open>i\<close>, feature or latent dimension \<open>j\<close>.
\<close>

definition per_sample_recon :: "tensor2 \<Rightarrow> tensor2 \<Rightarrow> nat \<Rightarrow> real" where
  "per_sample_recon pxz x i = (\<Sum>j<length (x ! i). bce_elem (pxz ! i ! j) (x ! i ! j))"


text \<open>
  The density of the normal distribution with mean \<open>m\<close> and standard deviation \<open>s\<close>, and
  the single-sample estimate of the KL term of sample \<open>i\<close>: the logarithm of the
  posterior density minus that of the prior density at the drawn \<open>z\<close>, summed over the
  latent dimensions.
\<close>

definition gauss_density :: "real \<Rightarrow> real \<Rightarrow> real \<Rightarrow> real" where
  "gauss_density m s v = exp (- ((v - m)\<^sup>2) / (2 * s\<^sup>2)) / (s * sqrt (2 * pi))"

definition single_sample_kl :: "normal \<Rightarrow> normal \<Rightarrow> tensor2 \<Rightarrow> nat \<Rightarrow> real" where
  "single_sample_kl Q P z i =
     (\<Sum>j<length (z ! i).
        ln (gauss_density (loc Q ! i ! j) (scale Q ! i ! j) (z ! i ! j))
      - ln (gauss_density (loc P ! i ! j) (scale P ! i ! j) (z ! i ! j)))"

text \<open>
  The closed form of the KL divergence between two normal distributions, per latent
  dimension, and its batch mean: the form the specification says is not used.
\<close>

definition analytic_kl_elem :: "real \<Rightarrow> real \<Rightarrow> real \<Rightarrow> real \<Rightarrow> real" where
  "analytic_kl_elem mq sq mp sp =
     ln (sp / sq) + (sq\<^sup>2 + (mq - mp)\<^sup>2) / (2 * sp\<^sup>2) - 1 / 2"

definition analytic_kl_mean :: "normal \<Rightarrow> normal \<Rightarrow> real" where
  "analytic_kl_mean Q P =
     (\<Sum>i<length (loc Q). \<Sum>j<length (loc Q ! i).
        analytic_kl_elem (loc Q ! i ! j) (scale Q ! i ! j) (loc P ! i ! j) (scale P ! i ! j))
     / real (length (loc Q))"

section \<open>The end-to-end scenario\<close>

text \<open>
  The inputs of the scenario of the specification (section 8, item 5): an encoder stub
  that returns mean 0 and log-variance 0 for every sample, with two latent dimensions,
  and a decoder stub that returns 0.5 for each of the 16 pixels of every sample.
\<close>

definition stub_encoder :: "images \<Rightarrow> failure + tensor2 \<times> tensor2" where
  "stub_encoder x = Inr (map (\<lambda>_. replicate 2 0) x, map (\<lambda>_. replicate 2 0) x)"

definition stub_decoder :: "tensor2 \<Rightarrow> failure + tensor2" where
  "stub_decoder z = Inr (map (\<lambda>_. replicate 16 (1 / 2)) z)"

section \<open>The step on an explicit store\<close>

text \<open>
  For the claim about mutation the step is modelled once more with the tensors in a
  store. A cell holds a batch of images, a tensor, a vector of per-sample values, a
  scalar or a distribution object, which refers to its two parameter tensors by address.
  A handle is \<open>Whole a\<close>, the tensor stored at \<open>a\<close>, or \<open>Flat a\<close>, the view
  \<^verbatim>\<open>x.view(x.size(0), -1)\<close> of the images stored at \<open>a\<close>: the view shares the storage of
  the batch, so a write through it would change the batch. \<open>fresh\<close> is the next unused
  address and \<open>gen\<close> the state of the random generator; \<open>randn\<close> gives, for a generator
  state, the standard-normal draw for each position and the next state.
  \<^verbatim>\<open>torch.manual_seed\<close> sets the state.

  Every library operation the two methods call returns a new tensor: it reads its
  operands and allocates its result. None of them is an in-place operation. The encoder
  and the decoder are functions of the values of their inputs.
\<close>

datatype obj = Img images | Ten tensor2 | Vec vec | Sca real | Dist nat nat

datatype href = Whole nat | Flat nat

record store =
  cells :: "nat \<Rightarrow> obj option"
  fresh :: nat
  gen :: nat

definition alloc :: "obj \<Rightarrow> store \<Rightarrow> nat \<times> store" where
  "alloc v s = (fresh s, s\<lparr>cells := (cells s)(fresh s := Some v), fresh := Suc (fresh s)\<rparr>)"

definition get_images :: "store \<Rightarrow> nat \<Rightarrow> failure + images" where
  "get_images s a = (case cells s a of Some (Img x) \<Rightarrow> Inr x | _ \<Rightarrow> Inl Bad_reference)"

definition get_tensor :: "store \<Rightarrow> href \<Rightarrow> failure + tensor2" where
  "get_tensor s h =
     (case h of
        Whole a \<Rightarrow> (case cells s a of Some (Ten t) \<Rightarrow> Inr t | _ \<Rightarrow> Inl Bad_reference)
      | Flat a \<Rightarrow> (case cells s a of Some (Img x) \<Rightarrow> Inr (map flatten_image x)
                                   | _ \<Rightarrow> Inl Bad_reference))"

definition get_vec :: "store \<Rightarrow> nat \<Rightarrow> failure + vec" where
  "get_vec s a = (case cells s a of Some (Vec v) \<Rightarrow> Inr v | _ \<Rightarrow> Inl Bad_reference)"

definition get_scalar :: "store \<Rightarrow> nat \<Rightarrow> failure + real" where
  "get_scalar s a = (case cells s a of Some (Sca v) \<Rightarrow> Inr v | _ \<Rightarrow> Inl Bad_reference)"

definition get_dist :: "store \<Rightarrow> nat \<Rightarrow> failure + normal" where
  "get_dist s a =
     (case cells s a of
        Some (Dist l sc) \<Rightarrow>
          and_then (get_tensor s (Whole l)) (\<lambda>lv.
          and_then (get_tensor s (Whole sc)) (\<lambda>sv.
          Inr \<lparr>loc = lv, scale = sv\<rparr>))
      | _ \<Rightarrow> Inl Bad_reference)"

definition new_tensor :: "tensor2 \<Rightarrow> store \<Rightarrow> failure + href \<times> store" where
  "new_tensor t s = (case alloc (Ten t) s of (a, s') \<Rightarrow> Inr (Whole a, s'))"

definition tensor_op1 ::
  "(tensor2 \<Rightarrow> failure + tensor2) \<Rightarrow> href \<Rightarrow> store \<Rightarrow> failure + href \<times> store" where
  "tensor_op1 f a s =
     and_then (get_tensor s a) (\<lambda>ta. and_then (f ta) (\<lambda>t. new_tensor t s))"

definition tensor_op2 ::
  "(tensor2 \<Rightarrow> tensor2 \<Rightarrow> failure + tensor2) \<Rightarrow> href \<Rightarrow> href \<Rightarrow> store
     \<Rightarrow> failure + href \<times> store" where
  "tensor_op2 f a b s =
     and_then (get_tensor s a) (\<lambda>ta. and_then (get_tensor s b) (\<lambda>tb.
     and_then (f ta tb) (\<lambda>t. new_tensor t s)))"

definition tdiv_st :: "href \<Rightarrow> real \<Rightarrow> store \<Rightarrow> failure + href \<times> store" where
  "tdiv_st a c = tensor_op1 (\<lambda>t. Inr (tdiv t c)) a"

definition torch_exp_st :: "href \<Rightarrow> store \<Rightarrow> failure + href \<times> store" where
  "torch_exp_st = tensor_op1 (\<lambda>t. Inr (torch_exp t))"

definition zeros_like_st :: "href \<Rightarrow> store \<Rightarrow> failure + href \<times> store" where
  "zeros_like_st = tensor_op1 (\<lambda>t. Inr (zeros_like t))"

definition ones_like_st :: "href \<Rightarrow> store \<Rightarrow> failure + href \<times> store" where
  "ones_like_st = tensor_op1 (\<lambda>t. Inr (ones_like t))"

definition tsub_st :: "href \<Rightarrow> href \<Rightarrow> store \<Rightarrow> failure + href \<times> store" where
  "tsub_st = tensor_op2 tsub"

definition binary_cross_entropy_st :: "href \<Rightarrow> href \<Rightarrow> store \<Rightarrow> failure + href \<times> store" where
  "binary_cross_entropy_st = tensor_op2 binary_cross_entropy"

definition sum_last_st :: "href \<Rightarrow> store \<Rightarrow> failure + nat \<times> store" where
  "sum_last_st a s = and_then (get_tensor s a) (\<lambda>t. Inr (alloc (Vec (sum_last t)) s))"

definition vadd_st :: "nat \<Rightarrow> nat \<Rightarrow> store \<Rightarrow> failure + nat \<times> store" where
  "vadd_st a b s =
     and_then (get_vec s a) (\<lambda>va. and_then (get_vec s b) (\<lambda>vb.
     and_then (vadd va vb) (\<lambda>v. Inr (alloc (Vec v) s))))"

definition mean_st :: "nat \<Rightarrow> store \<Rightarrow> failure + nat \<times> store" where
  "mean_st a s =
     and_then (get_vec s a) (\<lambda>v. and_then (mean v) (\<lambda>m. Inr (alloc (Sca m) s)))"

definition view_st :: "nat \<Rightarrow> store \<Rightarrow> failure + href \<times> store" where
  "view_st a s =
     and_then (get_images s a) (\<lambda>x. and_then (view_flat x) (\<lambda>_. Inr (Flat a, s)))"

definition Normal_st :: "href \<Rightarrow> href \<Rightarrow> store \<Rightarrow> failure + nat \<times> store" where
  "Normal_st l sc s =
     (case (l, sc) of
        (Whole la, Whole sa) \<Rightarrow>
          and_then (get_tensor s l) (\<lambda>lv. and_then (get_tensor s sc) (\<lambda>sv.
          and_then (Normal lv sv) (\<lambda>_. Inr (alloc (Dist la sa) s))))
      | _ \<Rightarrow> Inl Bad_reference)"

definition rsample_st ::
  "(nat \<Rightarrow> (nat \<Rightarrow> nat \<Rightarrow> real) \<times> nat) \<Rightarrow> nat \<Rightarrow> store \<Rightarrow> failure + href \<times> store" where
  "rsample_st randn d s =
     and_then (get_dist s d) (\<lambda>dv.
     case randn (gen s) of (eps, g) \<Rightarrow>
     and_then (rsample eps dv) (\<lambda>z. new_tensor z (s\<lparr>gen := g\<rparr>)))"

definition log_prob_st :: "nat \<Rightarrow> href \<Rightarrow> store \<Rightarrow> failure + href \<times> store" where
  "log_prob_st d z s =
     and_then (get_dist s d) (\<lambda>dv. and_then (get_tensor s z) (\<lambda>zv.
     and_then (log_prob dv zv) (\<lambda>t. new_tensor t s)))"

definition manual_seed :: "nat \<Rightarrow> store \<Rightarrow> store" where
  "manual_seed g s = s\<lparr>gen := g\<rparr>"

definition get_prior_st :: "href \<Rightarrow> href \<Rightarrow> store \<Rightarrow> failure + nat \<times> store" where
  "get_prior_st z_mu z_std s =
     and_then (zeros_like_st z_mu s) (\<lambda>(zl, s).
     and_then (ones_like_st z_std s) (\<lambda>(ol, s).
     Normal_st zl ol s))"

definition get_approx_posterior_st :: "href \<Rightarrow> href \<Rightarrow> store \<Rightarrow> failure + nat \<times> store" where
  "get_approx_posterior_st z_mu z_std s = Normal_st z_mu z_std s"

definition forward_st ::
  "(tensor2 \<Rightarrow> failure + tensor2) \<Rightarrow> href \<Rightarrow> store \<Rightarrow> failure + href \<times> store" where
  "forward_st decoder z s = tensor_op1 decoder z s"

definition encoder_st ::
  "(images \<Rightarrow> failure + tensor2 \<times> tensor2) \<Rightarrow> nat \<Rightarrow> store
     \<Rightarrow> failure + (href \<times> href) \<times> store" where
  "encoder_st encoder x s =
     and_then (get_images s x) (\<lambda>xv. and_then (encoder xv) (\<lambda>(mu, lv).
     and_then (new_tensor mu s) (\<lambda>(z_mu, s).
     and_then (new_tensor lv s) (\<lambda>(z_log_var, s).
     Inr ((z_mu, z_log_var), s)))))"

text \<open>\<^verbatim>\<open>elbo_loss\<close> and \<^verbatim>\<open>_run_step\<close>, statement by statement.\<close>

definition elbo_loss_st ::
  "(tensor2 \<Rightarrow> failure + tensor2) \<Rightarrow> (nat \<Rightarrow> (nat \<Rightarrow> nat \<Rightarrow> real) \<times> nat)
     \<Rightarrow> href \<Rightarrow> nat \<Rightarrow> nat \<Rightarrow> store \<Rightarrow> failure + (nat \<times> nat \<times> nat \<times> href) \<times> store" where
  "elbo_loss_st decoder randn x P Q s =
     and_then (rsample_st randn Q s) (\<lambda>(z, s).
     and_then (forward_st decoder z s) (\<lambda>(pxz, s).
     and_then (binary_cross_entropy_st pxz x s) (\<lambda>(recon_elems, s).
     and_then (sum_last_st recon_elems s) (\<lambda>(recon_loss, s).
     and_then (log_prob_st Q z s) (\<lambda>(log_qz, s).
     and_then (log_prob_st P z s) (\<lambda>(log_pz, s).
     and_then (tsub_st log_qz log_pz s) (\<lambda>(kl_elems, s).
     and_then (sum_last_st kl_elems s) (\<lambda>(kl_div, s).
     and_then (vadd_st recon_loss kl_div s) (\<lambda>(loss, s).
     and_then (mean_st loss s) (\<lambda>(loss_mean, s).
     and_then (mean_st recon_loss s) (\<lambda>(recon_mean, s).
     and_then (mean_st kl_div s) (\<lambda>(kl_mean, s).
     Inr ((loss_mean, recon_mean, kl_mean, pxz), s)))))))))))))"

definition run_step_st ::
  "(images \<Rightarrow> failure + tensor2 \<times> tensor2) \<Rightarrow> (tensor2 \<Rightarrow> failure + tensor2)
     \<Rightarrow> (nat \<Rightarrow> (nat \<Rightarrow> nat \<Rightarrow> real) \<times> nat) \<Rightarrow> nat \<times> nat \<Rightarrow> store
     \<Rightarrow> failure + (nat \<times> nat \<times> nat \<times> href) \<times> store" where
  "run_step_st encoder decoder randn batch s =
     (case batch of (x, _) \<Rightarrow>
      and_then (encoder_st encoder x s) (\<lambda>((z_mu, z_log_var), s).
      and_then (tdiv_st z_log_var 2 s) (\<lambda>(half, s).
      and_then (torch_exp_st half s) (\<lambda>(z_std, s).
      and_then (get_prior_st z_mu z_std s) (\<lambda>(P, s).
      and_then (get_approx_posterior_st z_mu z_std s) (\<lambda>(Q, s).
      and_then (view_st x s) (\<lambda>(xf, s).
      and_then (elbo_loss_st decoder randn xf P Q s) (\<lambda>((loss, recon_loss, kl_div, pxz), s).
      Inr ((loss, recon_loss, kl_div, pxz), s)))))))))"

text \<open>
  The values of the tuple a step returns, read from the store it leaves, and the result
  of a step as values. \<open>keeps s res\<close>: a run from \<open>s\<close> that returned left every cell
  that existed in \<open>s\<close> as it was.
\<close>

definition read_outputs ::
  "store \<Rightarrow> nat \<times> nat \<times> nat \<times> href \<Rightarrow> failure + real \<times> real \<times> real \<times> tensor2" where
  "read_outputs s out =
     (case out of (loss, recon_loss, kl_div, pxz) \<Rightarrow>
      and_then (get_scalar s loss) (\<lambda>l. and_then (get_scalar s recon_loss) (\<lambda>r.
      and_then (get_scalar s kl_div) (\<lambda>k. and_then (get_tensor s pxz) (\<lambda>p.
      Inr (l, r, k, p))))))"

definition outcome ::
  "failure + (nat \<times> nat \<times> nat \<times> href) \<times> store \<Rightarrow> failure + real \<times> real \<times> real \<times> tensor2" where
  "outcome res = and_then res (\<lambda>(out, s). read_outputs s out)"

definition keeps :: "store \<Rightarrow> failure + 'a \<times> store \<Rightarrow> bool" where
  "keeps s res =
     (case res of
        Inl e \<Rightarrow> True
      | Inr (out, s') \<Rightarrow> fresh s \<le> fresh s' \<and> (\<forall>a<fresh s. cells s' a = cells s a))"

section \<open>Auxiliary facts\<close>

subsection \<open>Failure propagation and shapes\<close>

lemma and_then_Inr_iff:
  "and_then m f = Inr r \<longleftrightarrow> (\<exists>v. m = Inr v \<and> f v = Inr r)"
  by (cases m) (simp_all add: and_then_def)

lemma and_then_Inr [simp]: "and_then (Inr v) f = f v"
  by (simp add: and_then_def)

lemma and_then_Inl [simp]: "and_then (Inl e) f = Inl e"
  by (simp add: and_then_def)

lemma same_shape_length: "same_shape a b \<Longrightarrow> length a = length b"
  unfolding same_shape_def by (metis length_map)

lemma same_shape_row: "same_shape a b \<Longrightarrow> i < length a \<Longrightarrow> length (a ! i) = length (b ! i)"
  unfolding same_shape_def by (metis length_map nth_map)

lemma same_shape_refl: "same_shape a a"
  by (simp add: same_shape_def)

lemma same_shape_sym: "same_shape a b \<Longrightarrow> same_shape b a"
  by (simp add: same_shape_def)

lemma same_shape_trans: "same_shape a b \<Longrightarrow> same_shape b c \<Longrightarrow> same_shape a c"
  by (simp add: same_shape_def)

lemma length_ew2: "length (ew2 f a b) = min (length a) (length b)"
  by (simp add: ew2_def)

lemma same_shape_ew2: "same_shape a b \<Longrightarrow> same_shape (ew2 f a b) a"
  unfolding same_shape_def ew2_def
proof (induction a arbitrary: b)
  case Nil
  then show ?case by simp
next
  case (Cons r a)
  then show ?case by (cases b) auto
qed

lemma same_shape_ew1: "same_shape (ew1 f a) a"
  by (simp add: same_shape_def ew1_def comp_def)

lemma nth_ew2:
  "same_shape a b \<Longrightarrow> i < length a \<Longrightarrow> j < length (a ! i) \<Longrightarrow>
     ew2 f a b ! i ! j = f (a ! i ! j) (b ! i ! j)"
  using same_shape_length [of a b] same_shape_row [of a b i]
  by (simp add: ew2_def)


lemma sum_list_nth_real: "sum_list (xs :: real list) = (\<Sum>i<length xs. xs ! i)"
  by (simp add: sum_list_sum_nth atLeast0LessThan)

lemma sum_last_nth:
  "i < length a \<Longrightarrow> sum_last a ! i = (\<Sum>j<length (a ! i). a ! i ! j)"
  by (simp add: sum_last_def sum_list_nth_real)

lemma length_sum_last: "length (sum_last a) = length a"
  by (simp add: sum_last_def)

subsection \<open>When the library operations succeed\<close>

lemma mean_Inr_iff: "mean v = Inr m \<longleftrightarrow> v \<noteq> [] \<and> m = sum_list v / real (length v)"
  by (auto simp: mean_def)

lemma vadd_Inr_iff:
  "vadd a b = Inr c \<longleftrightarrow> length a = length b \<and> c = map2 (\<lambda>u v. u + v) a b"
  by (auto simp: vadd_def)

lemma tsub_Inr_iff:
  "tsub a b = Inr c \<longleftrightarrow> same_shape a b \<and> c = ew2 (\<lambda>u v. u - v) a b"
  by (auto simp: tsub_def)

lemma bce_Inr_iff:
  "binary_cross_entropy p t = Inr c \<longleftrightarrow>
     same_shape p t \<and> (\<forall>row \<in> set p. \<forall>v \<in> set row. 0 \<le> v \<and> v \<le> 1) \<and> c = ew2 bce_elem p t"
  unfolding binary_cross_entropy_def by (auto simp: not_less) force+

lemma log_prob_Inr_iff:
  "log_prob d z = Inr c \<longleftrightarrow>
     same_shape (loc d) (scale d) \<and> same_shape z (loc d) \<and>
     (\<forall>row \<in> set (scale d). \<forall>s \<in> set row. 0 < s) \<and>
     c = ew2 (\<lambda>v (m, s). log_prob_elem m s v) z (ew2 Pair (loc d) (scale d))"
  unfolding log_prob_def by (auto simp: not_le) force

lemma rsample_Inr_iff:
  "rsample eps d = Inr z \<longleftrightarrow>
     same_shape (loc d) (scale d) \<and>
     z = ew2 (\<lambda>m n. m + n) (loc d) (ew2 (\<lambda>e s. e * s) (standard_normal eps (loc d)) (scale d))"
  by (auto simp: rsample_def)

text \<open>What a successful run of \<open>elbo_loss\<close> went through.\<close>

lemma elbo_loss_Inr_iff:
  "elbo_loss decoder eps x P Q = Inr (loss, recon_loss, kl_div, pxz) \<longleftrightarrow>
     (\<exists>z recon_elems log_qz log_pz kl_elems.
        rsample eps Q = Inr z \<and> decoder z = Inr pxz \<and>
        binary_cross_entropy pxz x = Inr recon_elems \<and>
        log_prob Q z = Inr log_qz \<and> log_prob P z = Inr log_pz \<and>
        tsub log_qz log_pz = Inr kl_elems \<and>
        length (sum_last recon_elems) = length (sum_last kl_elems) \<and>
        sum_last recon_elems \<noteq> [] \<and>
        loss = sum_list (map2 (\<lambda>u v. u + v) (sum_last recon_elems) (sum_last kl_elems))
                 / real (length (sum_last recon_elems)) \<and>
        recon_loss = sum_list (sum_last recon_elems) / real (length (sum_last recon_elems)) \<and>
        kl_div = sum_list (sum_last kl_elems) / real (length (sum_last kl_elems)))"
  unfolding elbo_loss_def forward_def Let_def and_then_Inr_iff mean_Inr_iff vadd_Inr_iff
  by auto

subsection \<open>Sums over rows\<close>

lemma nth_ew2_row_length:
  "same_shape a b \<Longrightarrow> i < length a \<Longrightarrow> length (ew2 f a b ! i) = length (a ! i)"
  using same_shape_length [of a b] same_shape_row [of a b i]
  by (simp add: ew2_def)

lemma sum_last_ew2_nth:
  assumes "same_shape a b" and "i < length a"
  shows "sum_last (ew2 f a b) ! i = (\<Sum>j<length (a ! i). f (a ! i ! j) (b ! i ! j))"
proof -
  have len: "length (ew2 f a b) = length a"
    using same_shape_length [OF assms(1)] by (simp add: length_ew2)
  have "sum_last (ew2 f a b) ! i = (\<Sum>j<length (ew2 f a b ! i). ew2 f a b ! i ! j)"
    using assms(2) len by (simp add: sum_last_nth)
  also have "\<dots> = (\<Sum>j<length (a ! i). ew2 f a b ! i ! j)"
    by (simp add: nth_ew2_row_length [OF assms])
  also have "\<dots> = (\<Sum>j<length (a ! i). f (a ! i ! j) (b ! i ! j))"
    by (rule sum.cong) (simp_all add: nth_ew2 [OF assms])
  finally show ?thesis .
qed

lemma sum_list_sum_last_ew2:
  assumes "same_shape a b"
  shows "sum_list (sum_last (ew2 f a b))
           = (\<Sum>i<length a. \<Sum>j<length (a ! i). f (a ! i ! j) (b ! i ! j))"
proof -
  have len: "length (sum_last (ew2 f a b)) = length a"
    using same_shape_length [OF assms] by (simp add: length_sum_last length_ew2)
  have "sum_list (sum_last (ew2 f a b)) = (\<Sum>i<length a. sum_last (ew2 f a b) ! i)"
    using len by (simp add: sum_list_nth_real)
  also have "\<dots> = (\<Sum>i<length a. \<Sum>j<length (a ! i). f (a ! i ! j) (b ! i ! j))"
    by (rule sum.cong) (simp_all add: sum_last_ew2_nth [OF assms])
  finally show ?thesis .
qed

subsection \<open>Sampling and log-density\<close>

lemma ln_gauss_density:
  assumes "0 < s"
  shows "ln (gauss_density m s v) = log_prob_elem m s v"
proof -
  have pos: "0 < s * sqrt (2 * pi)"
    using assms by simp
  have "ln (gauss_density m s v)
          = ln (exp (- ((v - m)\<^sup>2) / (2 * s\<^sup>2))) - ln (s * sqrt (2 * pi))"
    unfolding gauss_density_def using pos by (simp add: ln_divide_pos)
  also have "\<dots> = - ((v - m)\<^sup>2) / (2 * s\<^sup>2) - (ln s + ln (sqrt (2 * pi)))"
    using assms by (simp add: ln_mult)
  finally show ?thesis
    by (simp add: log_prob_elem_def)
qed

lemma length_standard_normal: "length (standard_normal eps like) = length like"
  by (simp add: standard_normal_def)

lemma same_shape_standard_normal: "same_shape (standard_normal eps like) like"
  unfolding same_shape_def standard_normal_def
  by (rule nth_equalityI) simp_all

lemma nth_standard_normal:
  "i < length like \<Longrightarrow> j < length (like ! i) \<Longrightarrow> standard_normal eps like ! i ! j = eps i j"
  by (simp add: standard_normal_def)

lemma rsample_nth:
  assumes "rsample eps Q = Inr z" and "i < length z" and "j < length (z ! i)"
  shows "z ! i ! j = loc Q ! i ! j + eps i j * scale Q ! i ! j"
proof -
  have sh: "same_shape (loc Q) (scale Q)"
    and z: "z = ew2 (\<lambda>m n. m + n) (loc Q)
                  (ew2 (\<lambda>e s. e * s) (standard_normal eps (loc Q)) (scale Q))"
    using assms(1) by (simp_all add: rsample_Inr_iff)
  let ?n = "standard_normal eps (loc Q)"
  have sh_n: "same_shape ?n (scale Q)"
    using same_shape_trans [OF same_shape_standard_normal sh] .
  have sh_m: "same_shape (loc Q) (ew2 (\<lambda>e s. e * s) ?n (scale Q))"
    using same_shape_sym [OF same_shape_trans [OF same_shape_ew2 [OF sh_n] same_shape_standard_normal]] .
  have sh_z: "same_shape z (loc Q)"
    unfolding z by (rule same_shape_ew2 [OF sh_m])
  have i: "i < length (loc Q)"
    using assms(2) same_shape_length [OF sh_z] by simp
  have j: "j < length (loc Q ! i)"
    using assms(2,3) same_shape_row [OF sh_z] by simp
  have i': "i < length ?n"
    using i by (simp add: length_standard_normal)
  have j': "j < length (?n ! i)"
    using i j same_shape_row [OF same_shape_standard_normal, of i eps "loc Q"]
    by (simp add: length_standard_normal)
  show ?thesis
    unfolding z
    by (simp add: nth_ew2 [OF sh_m i j] nth_ew2 [OF sh_n i' j'] nth_standard_normal [OF i j])
qed

lemma rsample_shape: "rsample eps Q = Inr z \<Longrightarrow> same_shape z (loc Q)"
proof -
  assume a: "rsample eps Q = Inr z"
  have sh: "same_shape (loc Q) (scale Q)"
    and z: "z = ew2 (\<lambda>m n. m + n) (loc Q)
                  (ew2 (\<lambda>e s. e * s) (standard_normal eps (loc Q)) (scale Q))"
    using a by (simp_all add: rsample_Inr_iff)
  have sh_n: "same_shape (standard_normal eps (loc Q)) (scale Q)"
    using same_shape_trans [OF same_shape_standard_normal sh] .
  have "same_shape (loc Q) (ew2 (\<lambda>e s. e * s) (standard_normal eps (loc Q)) (scale Q))"
    using same_shape_sym [OF same_shape_trans [OF same_shape_ew2 [OF sh_n] same_shape_standard_normal]] .
  then show ?thesis
    unfolding z by (rule same_shape_ew2)
qed

lemma log_prob_nth:
  assumes "log_prob d z = Inr lp" and "i < length z" and "j < length (z ! i)"
  shows "lp ! i ! j = ln (gauss_density (loc d ! i ! j) (scale d ! i ! j) (z ! i ! j))"
proof -
  have sh: "same_shape (loc d) (scale d)" and sh_z: "same_shape z (loc d)"
    and pos: "\<forall>row \<in> set (scale d). \<forall>s \<in> set row. 0 < s"
    and lp: "lp = ew2 (\<lambda>v (m, s). log_prob_elem m s v) z (ew2 Pair (loc d) (scale d))"
    using assms(1) by (simp_all add: log_prob_Inr_iff)
  have sh_p: "same_shape z (ew2 Pair (loc d) (scale d))"
    using same_shape_trans [OF sh_z same_shape_sym [OF same_shape_ew2 [OF sh]]] .
  have i: "i < length (loc d)"
    using assms(2) same_shape_length [OF sh_z] by simp
  have j: "j < length (loc d ! i)"
    using assms(2,3) same_shape_row [OF sh_z] by simp
  have i_s: "i < length (scale d)"
    using i same_shape_length [OF sh] by simp
  have j_s: "j < length (scale d ! i)"
    using i j same_shape_row [OF sh] by simp
  have "scale d ! i \<in> set (scale d)"
    using i_s by simp
  moreover have "scale d ! i ! j \<in> set (scale d ! i)"
    using j_s by simp
  ultimately have s_pos: "0 < scale d ! i ! j"
    using pos by blast
  have "lp ! i ! j = log_prob_elem (loc d ! i ! j) (scale d ! i ! j) (z ! i ! j)"
    unfolding lp by (simp add: nth_ew2 [OF sh_p assms(2,3)] nth_ew2 [OF sh i j])
  then show ?thesis
    by (simp add: ln_gauss_density [OF s_pos])
qed

lemma log_prob_shape: "log_prob d z = Inr lp \<Longrightarrow> same_shape lp z"
proof -
  assume a: "log_prob d z = Inr lp"
  have sh: "same_shape (loc d) (scale d)" and sh_z: "same_shape z (loc d)"
    and lp: "lp = ew2 (\<lambda>v (m, s). log_prob_elem m s v) z (ew2 Pair (loc d) (scale d))"
    using a by (simp_all add: log_prob_Inr_iff)
  have "same_shape z (ew2 Pair (loc d) (scale d))"
    using same_shape_trans [OF sh_z same_shape_sym [OF same_shape_ew2 [OF sh]]] .
  then show ?thesis
    unfolding lp by (rule same_shape_ew2)
qed

subsection \<open>Evaluation on concrete tensors\<close>

lemmas tensor_eval =
  same_shape_def ew1_def ew2_def sum_last_def mean_def vadd_def tsub_def
  binary_cross_entropy_def bce_elem_def clamp_log_def
  rsample_def standard_normal_def log_prob_def log_prob_elem_def forward_def

subsection \<open>The standard deviation and the distributions of a step\<close>

lemma z_std_of_eq: "z_std_of z_log_var = map (map (\<lambda>v. exp (v / 2))) z_log_var"
  by (simp add: z_std_of_def torch_exp_def tdiv_def ew1_def comp_def)




subsection \<open>Sign of the cross-entropy\<close>




subsection \<open>Means of stacked scalars\<close>

lemma stack_mean_Inr_iff:
  "and_then (stack ts) mean = Inr m \<longleftrightarrow> ts \<noteq> [] \<and> m = sum_list ts / real (length ts)"
  by (auto simp: stack_def mean_def)

lemma stack_mean_nonempty:
  "ts \<noteq> [] \<Longrightarrow> and_then (stack ts) mean = Inr (sum_list ts / real (length ts))"
  by (simp add: stack_mean_Inr_iff)

lemma stack_mean_empty: "and_then (stack []) mean = Inl Stack_empty"
  by (simp add: stack_def)

lemma sum_list_replicate_real: "sum_list (replicate n (v :: real)) = real n * v"
  by (induction n) (simp_all add: algebra_simps)


subsection \<open>Bounds on the logarithm of 2\<close>

lemma exp_upper_277: "exp (277 / 400 :: real) < 2"
proof -
  obtain t :: real where t: "\<bar>t\<bar> \<le> \<bar>277 / 400\<bar>"
    and e: "exp (277 / 400) = (\<Sum>m<8. ((277 / 400) ^ m) / fact m) + (exp t / fact 8) * (277 / 400) ^ 8"
    using Maclaurin_exp_le [of "277 / 400" 8] by blast
  have "t \<le> 1" using t by simp
  then have "exp t \<le> exp 1" by simp
  then have et: "exp t \<le> 3" using exp_le by linarith
  have "(exp t / fact 8) * (277 / 400) ^ 8 \<le> (3 / fact 8) * (277 / 400 :: real) ^ 8"
    using et by (intro mult_right_mono divide_right_mono) simp_all
  then have "exp (277 / 400 :: real) \<le> (\<Sum>m<8. ((277 / 400) ^ m) / fact m) + (3 / fact 8) * (277 / 400) ^ 8"
    using e by linarith
  also have "\<dots> < 2"
    by (simp add: eval_nat_numeral lessThan_Suc fact_numeral)
  finally show ?thesis .
qed

lemma exp_lower_111: "2 < exp (111 / 160 :: real)"
proof -
  obtain t :: real where
    e: "exp (111 / 160) = (\<Sum>m<7. ((111 / 160) ^ m) / fact m) + (exp t / fact 7) * (111 / 160) ^ 7"
    using Maclaurin_exp_le [of "111 / 160" 7] by blast
  have "0 \<le> (exp t / fact 7) * (111 / 160 :: real) ^ 7"
    by simp
  then have "(\<Sum>m<7. ((111 / 160 :: real) ^ m) / fact m) \<le> exp (111 / 160)"
    using e by linarith
  moreover have "2 < (\<Sum>m<7. ((111 / 160 :: real) ^ m) / fact m)"
    by (simp add: eval_nat_numeral lessThan_Suc fact_numeral)
  ultimately show ?thesis by linarith
qed

lemma ln_2_bounds: "277 / 400 < ln (2 :: real)" "ln (2 :: real) < 111 / 160"
proof -
  have "exp (277 / 400 :: real) < exp (ln 2)"
    using exp_upper_277 by simp
  then show "277 / 400 < ln (2 :: real)"
    by (simp only: exp_less_cancel_iff)
  have "exp (ln 2) < exp (111 / 160 :: real)"
    using exp_lower_111 by simp
  then show "ln (2 :: real) < 111 / 160"
    by (simp only: exp_less_cancel_iff)
qed

lemma neg_ln_half: "- ln (1 / 2 :: real) = ln 2"
  by (simp add: ln_div)

lemma recon_value_approx: "\<bar>16 * (- ln (1 / 2 :: real)) - 1109 / 100\<bar> < 1 / 100"
proof -
  have "277 / 400 < ln (2 :: real)" "ln (2 :: real) < 111 / 160"
    by (rule ln_2_bounds)+
  then have "\<bar>16 * ln (2 :: real) - 1109 / 100\<bar> < 1 / 100"
    by linarith
  then show ?thesis
    by (simp only: neg_ln_half)
qed

subsection \<open>The scenario with constant stubs\<close>

lemma clamp_log_half: "clamp_log (1 / 2) = ln (1 / 2)"
proof -
  have "ln (2 :: real) < 1" by (rule ln_2_less_1)
  then have "- 100 \<le> ln (1 / 2 :: real)"
    by (simp add: ln_div)
  then show ?thesis
    by (simp add: clamp_log_def max_def)
qed

lemma bce_elem_half: "bce_elem (1 / 2) t = - ln (1 / 2)"
proof -
  have "(1 :: real) - 1 / 2 = 1 / 2" by simp
  then have "bce_elem (1 / 2) t = - (t * ln (1 / 2) + (1 - t) * ln (1 / 2))"
    by (simp only: bce_elem_def clamp_log_half)
  then show ?thesis
    by (simp add: algebra_simps)
qed

lemma ew2_same: "ew2 f a a = ew1 (\<lambda>v. f v v) a"
  by (simp add: ew2_def ew1_def zip_same_conv_map)

lemma sum_last_sub_self: "sum_last (ew2 (\<lambda>u v. u - v) a a) = replicate (length a) 0"
proof -
  have "map (\<lambda>row. sum_list (map (\<lambda>v. 0 :: real) row)) a = map (\<lambda>_. 0) a"
    by simp
  then show ?thesis
    by (simp add: ew2_same ew1_def sum_last_def comp_def map_replicate_const)
qed

lemma mean_replicate: "0 < n \<Longrightarrow> mean (replicate n v) = Inr v"
  by (simp add: mean_def sum_list_replicate_real)

lemma sum_last_bce_half:
  assumes "length pxz = length xf"
    and "\<forall>row \<in> set pxz. row = replicate n (1 / 2)"
    and "\<forall>row \<in> set xf. length row = n"
  shows "sum_last (ew2 bce_elem pxz xf) = replicate (length xf) (real n * (- ln (1 / 2)))"
  using assms
proof (induction pxz xf rule: list_induct2)
  case Nil
  then show ?case by (simp add: sum_last_def ew2_def)
next
  case (Cons p ps r rs)
  have p: "p = replicate n (1 / 2)" and r: "length r = n"
    using Cons.prems by simp_all
  have "map2 bce_elem p r = map (\<lambda>t. - ln (1 / 2)) r"
    unfolding p using r
    by (intro nth_equalityI) (simp_all add: bce_elem_half)
  then have "sum_list (map2 bce_elem p r) = real n * (- ln (1 / 2))"
    using r by (simp add: sum_list_triv)
  moreover have "sum_last (ew2 bce_elem ps rs) = replicate (length rs) (real n * (- ln (1 / 2)))"
    using Cons.IH Cons.prems by simp
  ultimately show ?case
    by (simp add: sum_last_def ew2_def)
qed

lemma stub_step_distributions:
  "step_distributions stub_encoder x
     = Inr (\<lparr>loc = map (\<lambda>_. [0, 0]) x, scale = map (\<lambda>_. [1, 1]) x\<rparr>,
            \<lparr>loc = map (\<lambda>_. [0, 0]) x, scale = map (\<lambda>_. [1, 1]) x\<rparr>)"
  by (simp add: step_distributions_def stub_encoder_def Let_def z_std_of_eq
        get_prior_def get_approx_posterior_def Normal_def zeros_like_def ones_like_def
        ew1_def same_shape_def comp_def eval_nat_numeral)

lemma same_shape_const_rows: "same_shape (map (\<lambda>_. r) x) (map (\<lambda>_. r') x) \<longleftrightarrow> x = [] \<or> length r = length r'"
  by (cases x) (auto simp: same_shape_def comp_def)

lemma elbo_loss_stub:
  fixes xf :: tensor2
  assumes len: "length xf = length x" and ne: "x \<noteq> []"
    and rows: "\<forall>row \<in> set xf. length row = 16"
    and D: "D = \<lparr>loc = map (\<lambda>_. [0, 0]) x, scale = map (\<lambda>_. [1, 1 :: real]) x\<rparr>"
  shows "elbo_loss stub_decoder eps xf D D
           = Inr (16 * (- ln (1 / 2)), 16 * (- ln (1 / 2)), 0,
                  replicate (length x) (replicate 16 (1 / 2)))"
proof -
  have shD: "same_shape (loc D) (scale D)"
    by (simp add: D same_shape_const_rows)
  then obtain z where z: "rsample eps D = Inr z"
    by (simp add: rsample_def)
  have sh_z: "same_shape z (loc D)"
    by (rule rsample_shape [OF z])
  have len_z: "length z = length x"
    using same_shape_length [OF sh_z] by (simp add: D)
  let ?pxz = "map (\<lambda>_. replicate 16 (1 / 2 :: real)) z"
  have dec: "stub_decoder z = Inr ?pxz"
    by (simp add: stub_decoder_def)
  have pxz_eq: "?pxz = replicate (length x) (replicate 16 (1 / 2))"
    using len_z by (simp add: map_replicate_const)
  have sh_px: "same_shape ?pxz xf"
    unfolding same_shape_def
    using rows len len_z by (intro nth_equalityI) simp_all
  have range: "\<forall>row \<in> set ?pxz. \<forall>v \<in> set row. 0 \<le> v \<and> v \<le> 1"
    by auto
  have bce: "binary_cross_entropy ?pxz xf = Inr (ew2 bce_elem ?pxz xf)"
    using sh_px range by (simp add: bce_Inr_iff)
  have recon: "sum_last (ew2 bce_elem ?pxz xf) = replicate (length x) (16 * (- ln (1 / 2)))"
    using sum_last_bce_half [of ?pxz xf 16] rows len len_z by auto
  have pos: "\<forall>row \<in> set (scale D). \<forall>s \<in> set row. 0 < s"
    by (auto simp: D)
  let ?lq = "ew2 (\<lambda>v (m, s). log_prob_elem m s v) z (ew2 Pair (loc D) (scale D))"
  have lq: "log_prob D z = Inr ?lq"
    using shD sh_z pos by (simp add: log_prob_Inr_iff)
  have len_lq: "length ?lq = length x"
    using same_shape_length [OF log_prob_shape [OF lq]] len_z by simp
  have sub: "tsub ?lq ?lq = Inr (ew2 (\<lambda>u v. u - v) ?lq ?lq)"
    by (simp add: tsub_def same_shape_refl)
  have kl: "sum_last (ew2 (\<lambda>u v. u - v) ?lq ?lq) = replicate (length x) 0"
    using len_lq by (simp only: sum_last_sub_self)
  have n: "0 < length x"
    using ne by simp
  have add: "map2 (\<lambda>u v. u + v) (replicate (length x) (16 * (- ln (1 / 2 :: real))))
                 (replicate (length x) 0)
               = replicate (length x) (16 * (- ln (1 / 2)))"
    by (intro nth_equalityI) simp_all
  have "elbo_loss stub_decoder eps xf D D
          = Inr (16 * (- ln (1 / 2)), 16 * (- ln (1 / 2)), 0, ?pxz)"
    unfolding elbo_loss_Inr_iff
    apply (rule exI [of _ z])
    apply (rule exI [of _ "ew2 bce_elem ?pxz xf"])
    apply (rule exI [of _ ?lq])
    apply (rule exI [of _ ?lq])
    apply (rule exI [of _ "ew2 (\<lambda>u v. u - v) ?lq ?lq"])
    using z dec bce lq sub n
    by (simp add: recon kl add sum_list_replicate_real)
  then show ?thesis
    by (simp only: pxz_eq)
qed

subsection \<open>The step on the store and the step on values\<close>

text \<open>
  The step on the store computes what the step on values computes
  (\<open>run_step_st_outcome\<close>) and leaves every existing cell as it was
  (\<open>run_step_st_keeps\<close>).
\<close>

lemma and_then_assoc: "and_then (and_then m f) g = and_then m (\<lambda>v. and_then (f v) g)"
  by (cases m) (simp_all add: and_then_def)

lemmas store_defs =
  alloc_def get_images_def get_tensor_def get_vec_def get_scalar_def get_dist_def
  new_tensor_def tensor_op1_def tensor_op2_def tdiv_st_def torch_exp_st_def zeros_like_st_def
  ones_like_st_def tsub_st_def binary_cross_entropy_st_def sum_last_st_def vadd_st_def
  mean_st_def view_st_def Normal_st_def rsample_st_def log_prob_st_def get_prior_st_def
  get_approx_posterior_st_def forward_st_def encoder_st_def read_outputs_def outcome_def

lemma and_then_Normal_const:
  "and_then (Normal l s) f = and_then (Normal l s) (\<lambda>_. f \<lparr>loc = l, scale = s\<rparr>)"
  by (simp add: Normal_def)

lemma and_then_view_flat_const:
  "and_then (view_flat x) f = and_then (view_flat x) (\<lambda>_. f (map flatten_image x))"
  by (simp add: view_flat_def)

lemma run_step_unfold:
  "run_step encoder decoder eps (x, l)
     = and_then (encoder x) (\<lambda>v.
       and_then (Normal (zeros_like (fst v)) (ones_like (torch_exp (tdiv (snd v) 2)))) (\<lambda>_.
       and_then (Normal (fst v) (torch_exp (tdiv (snd v) 2))) (\<lambda>_.
       and_then (view_flat x) (\<lambda>_.
       elbo_loss decoder eps (map flatten_image x)
         \<lparr>loc = zeros_like (fst v), scale = ones_like (torch_exp (tdiv (snd v) 2))\<rparr>
         \<lparr>loc = fst v, scale = torch_exp (tdiv (snd v) 2)\<rparr>))))"
proof -
  have tuple: "(\<lambda>(loss, recon_loss, kl_div, pxz). Inr (loss, recon_loss, kl_div, pxz))
                 = (Inr :: real \<times> real \<times> real \<times> tensor2 \<Rightarrow> failure + _)"
    by (intro ext) (simp add: split_beta)
  have unit: "and_then m Inr = m" for m :: "failure + real \<times> real \<times> real \<times> tensor2"
    by (cases m) simp_all
  show ?thesis
    by (cases "encoder x")
       (simp_all add: run_step_def step_distributions_def get_prior_def
          get_approx_posterior_def z_std_of_def Let_def Normal_def view_flat_def
          split_beta tuple unit)
qed

lemma run_step_st_outcome:
  assumes "cells s hx = Some (Img x)" and "hx < fresh s"
  shows "outcome (run_step_st encoder decoder randn (hx, hl) s)
           = run_step encoder decoder (fst (randn (gen s))) (x, l)"
  using assms
  unfolding run_step_unfold
  unfolding run_step_st_def elbo_loss_st_def elbo_loss_def forward_def store_defs Let_def
  by (simp add: and_then_assoc split_beta)

lemma keeps_and_then: "(\<And>v. keeps s (f v)) \<Longrightarrow> keeps s (and_then p f)"
  by (cases p) (simp_all add: keeps_def)

lemma run_step_st_keeps:
  assumes "hx < fresh s"
  shows "keeps s (run_step_st encoder decoder randn (hx, hl) s)"
  using assms
  unfolding run_step_st_def elbo_loss_st_def forward_def store_defs Let_def
  apply (simp add: and_then_assoc split_beta)
  apply (intro keeps_and_then)
  apply (simp add: keeps_def)
  done

lemma run_step_example:
  "run_step (\<lambda>x. Inr (map (\<lambda>_. [0]) x, map (\<lambda>_. [0]) x)) (\<lambda>z. Inr (map (\<lambda>_. [1]) z))
     (\<lambda>i j. 5) ([[[[1]]]], ()) = Inr (0, 0, 0, [[1]])"
  by (simp add: run_step_def step_distributions_def Let_def z_std_of_eq get_prior_def
        get_approx_posterior_def Normal_def zeros_like_def ones_like_def view_flat_def
        flatten_image_def elbo_loss_def tensor_eval)

section \<open>Configuration defaults\<close>

text \<open>
  What holds of the configuration: the four dimensions take the value of the attribute of
  the same name or their default, and the batch size is 32 when \<^verbatim>\<open>batch_size\<close> is
  absent.
\<close>

lemma check_hparams_other_fields:
  assumes "check_hparams hp = Inr m"
  shows "hidden_dim m = attr_or (hp_hidden_dim hp) 128"
    and "latent_dim m = attr_or (hp_latent_dim hp) 32"
    and "input_width m = attr_or (hp_input_width hp) 28"
    and "input_height m = attr_or (hp_input_height hp) 28"
    and "hp_batch_size hp = None \<Longrightarrow> batch_size m = 32"
  using assms
  by (auto simp: check_hparams_def Let_def split: option.splits)

lemma check_hparams_None:
  "check_hparams \<lparr>hp_hidden_dim = None, hp_latent_dim = None, hp_input_width = None,
                  hp_input_height = None, hp_batch_size = None\<rparr>
     = Inr \<lparr>hidden_dim = 128, latent_dim = 32, input_width = 28, input_height = 28,
            batch_size = 32\<rparr>"
  by (simp add: check_hparams_def attr_or_def)

text \<open>
  Claim C4. The claim says that \<open>batch_size\<close> takes the value of the \<^verbatim>\<open>batch_size\<close>
  attribute when it is present. The code stores the value of \<^verbatim>\<open>input_height\<close> instead:
  with every attribute present, \<^verbatim>\<open>batch_size = 64\<close> and \<^verbatim>\<open>input_height = 28\<close>, both
  classes store the batch size 28.
\<close>

theorem check_hparams_batch_size_reads_input_height:
  "check_hparams \<lparr>hp_hidden_dim = Some 128, hp_latent_dim = Some 32,
                  hp_input_width = Some 28, hp_input_height = Some 28,
                  hp_batch_size = Some 64\<rparr>
     = Inr \<lparr>hidden_dim = 128, latent_dim = 32, input_width = 28, input_height = 28,
            batch_size = 28\<rparr>
   \<and> init_template \<lparr>hp_hidden_dim = Some 128, hp_latent_dim = Some 32,
                  hp_input_width = Some 28, hp_input_height = Some 28,
                  hp_batch_size = Some 64\<rparr>
     = Inr \<lparr>hidden_dim = 128, latent_dim = 32, input_width = 28, input_height = 28,
            batch_size = 28\<rparr>"
  by (simp add: check_hparams_def init_template_def attr_or_def)

section \<open>The ELBO\<close>




lemma elbo_loss_kl_mean:
  assumes "elbo_loss decoder eps x P Q = Inr (loss, recon_loss, kl_div, pxz)"
  shows "\<exists>z. rsample eps Q = Inr z \<and>
           kl_div = (\<Sum>i<length z. single_sample_kl Q P z i) / real (length z)"
proof -
  from assms obtain z recon_elems log_qz log_pz kl_elems where
    z: "rsample eps Q = Inr z" and
    lq: "log_prob Q z = Inr log_qz" and lp: "log_prob P z = Inr log_pz" and
    sub: "tsub log_qz log_pz = Inr kl_elems" and
    kl: "kl_div = sum_list (sum_last kl_elems) / real (length (sum_last kl_elems))"
    unfolding elbo_loss_Inr_iff by blast
  have sh_qp: "same_shape log_qz log_pz" and ke: "kl_elems = ew2 (\<lambda>u v. u - v) log_qz log_pz"
    using sub by (simp_all add: tsub_Inr_iff)
  have sh_qz: "same_shape log_qz z"
    by (rule log_prob_shape [OF lq])
  have len_q: "length log_qz = length z"
    by (rule same_shape_length [OF sh_qz])
  have rows: "\<And>i. i < length z \<Longrightarrow> length (log_qz ! i) = length (z ! i)"
    using same_shape_row [OF sh_qz] len_q by simp
  have len_k: "length (sum_last kl_elems) = length z"
    using same_shape_length [OF sh_qp] len_q by (simp add: ke length_sum_last length_ew2)
  have "sum_list (sum_last kl_elems)
          = (\<Sum>i<length z. \<Sum>j<length (log_qz ! i). log_qz ! i ! j - log_pz ! i ! j)"
    unfolding ke sum_list_sum_last_ew2 [OF sh_qp] len_q ..
  also have "\<dots> = (\<Sum>i<length z. single_sample_kl Q P z i)"
  proof (rule sum.cong)
    fix i assume "i \<in> {..<length z}"
    then have i: "i < length z" by simp
    have "(\<Sum>j<length (z ! i). log_qz ! i ! j - log_pz ! i ! j) = single_sample_kl Q P z i"
      unfolding single_sample_kl_def
      by (rule sum.cong) (simp_all add: log_prob_nth [OF lq i] log_prob_nth [OF lp i])
    then show "(\<Sum>j<length (log_qz ! i). log_qz ! i ! j - log_pz ! i ! j)
                 = single_sample_kl Q P z i"
      by (simp add: rows [OF i])
  qed simp
  finally show ?thesis
    using z kl len_k by auto
qed

lemma elbo_loss_kl_example:
  "elbo_loss (\<lambda>z. Inr [[1]]) (\<lambda>i j. 1) [[1]] \<lparr>loc = [[0]], scale = [[1]]\<rparr>
     \<lparr>loc = [[1]], scale = [[1]]\<rparr> = Inr (3 / 2, 0, 3 / 2, [[1]])"
  by (simp add: elbo_loss_def tensor_eval)

lemma analytic_kl_example:
  "analytic_kl_mean \<lparr>loc = [[1]], scale = [[1]]\<rparr> \<lparr>loc = [[0]], scale = [[1]]\<rparr> = 1 / 2"
  by (simp add: analytic_kl_mean_def analytic_kl_elem_def)

text \<open>
  Claim C2. When \<open>elbo_loss\<close> returns, \<open>z\<close> is the one reparameterized sample
  \<open>loc + eps * scale\<close> of the posterior \<open>Q\<close>, and the returned \<open>kl_div\<close> is the batch
  mean of the per-sample sums, over the latent dimensions, of the logarithm of the
  posterior density at \<open>z\<close> minus the logarithm of the prior density at \<open>z\<close>. This is
  not the closed form: there is an input on which \<open>kl_div\<close> differs from it.
\<close>

theorem elbo_loss_kl_single_sample:
  "(elbo_loss decoder eps x P Q = Inr (loss, recon_loss, kl_div, pxz) \<longrightarrow>
      (\<exists>z. rsample eps Q = Inr z \<and> same_shape z (loc Q) \<and>
         (\<forall>i<length z. \<forall>j<length (z ! i).
            z ! i ! j = loc Q ! i ! j + eps i j * scale Q ! i ! j) \<and>
         kl_div = (\<Sum>i<length z. single_sample_kl Q P z i) / real (length z)))
   \<and> (\<exists>decoder' eps' x' P' Q' loss' recon_loss' kl_div' pxz'.
         elbo_loss decoder' eps' x' P' Q' = Inr (loss', recon_loss', kl_div', pxz') \<and>
         kl_div' \<noteq> analytic_kl_mean Q' P')"
proof (intro conjI impI)
  assume a: "elbo_loss decoder eps x P Q = Inr (loss, recon_loss, kl_div, pxz)"
  from elbo_loss_kl_mean [OF a] obtain z where
    z: "rsample eps Q = Inr z" and
    kl: "kl_div = (\<Sum>i<length z. single_sample_kl Q P z i) / real (length z)"
    by blast
  show "\<exists>z. rsample eps Q = Inr z \<and> same_shape z (loc Q) \<and>
         (\<forall>i<length z. \<forall>j<length (z ! i).
            z ! i ! j = loc Q ! i ! j + eps i j * scale Q ! i ! j) \<and>
         kl_div = (\<Sum>i<length z. single_sample_kl Q P z i) / real (length z)"
    using z kl rsample_shape [OF z] rsample_nth [OF z] by blast
next
  have "(3 / 2 :: real) \<noteq> analytic_kl_mean \<lparr>loc = [[1]], scale = [[1]]\<rparr> \<lparr>loc = [[0]], scale = [[1]]\<rparr>"
    by (simp add: analytic_kl_example)
  with elbo_loss_kl_example
  show "\<exists>decoder' eps' x' P' Q' loss' recon_loss' kl_div' pxz'.
         elbo_loss decoder' eps' x' P' Q' = Inr (loss', recon_loss', kl_div', pxz') \<and>
         kl_div' \<noteq> analytic_kl_mean Q' P'"
    by blast
qed

theorem elbo_loss_kl_single_sample_witness:
  "\<exists>z. rsample (\<lambda>i j. 1) \<lparr>loc = [[1]], scale = [[1]]\<rparr> = Inr z \<and>
       (3 / 2 :: real) = (\<Sum>i<length z.
           single_sample_kl \<lparr>loc = [[1]], scale = [[1]]\<rparr> \<lparr>loc = [[0]], scale = [[1]]\<rparr> z i)
         / real (length z)"
  using elbo_loss_kl_single_sample
    [of "\<lambda>z. Inr [[1]]" "\<lambda>i j. 1" "[[1]]" "\<lparr>loc = [[0]], scale = [[1]]\<rparr>"
        "\<lparr>loc = [[1]], scale = [[1]]\<rparr>" "3 / 2" 0 "3 / 2" "[[1]]"]
    elbo_loss_kl_example
  by blast

section \<open>The standard deviation of the posterior\<close>



section \<open>Sign of the reconstruction loss\<close>



section \<open>Epoch aggregation\<close>



text \<open>
  Claim C8. On the empty list of per-batch records \<open>validation_epoch_end\<close> and
  \<open>test_epoch_end\<close> fail (stacking no tensors raises), so a result implies a non-empty
  list; on every non-empty list they return the arithmetic mean of each metric over all
  batches.
\<close>

theorem epoch_end_empty_fails:
  "validation_epoch_end [] = Inl Stack_empty
   \<and> test_epoch_end [] = Inl Stack_empty
   \<and> test_epoch_end_template [] = Inl Stack_empty
   \<and> (\<forall>res. validation_epoch_end vouts = Inr res \<longrightarrow> vouts \<noteq> [])
   \<and> (\<forall>res. test_epoch_end touts = Inr res \<longrightarrow> touts \<noteq> [])
   \<and> (vouts \<noteq> [] \<longrightarrow>
        validation_epoch_end vouts
          = Inr \<lparr>avg_val_loss = sum_list (map val_loss vouts) / real (length vouts),
                 val_log =
                   [(''val_elbo_loss'', sum_list (map val_loss vouts) / real (length vouts)),
                    (''val_recon_loss'',
                       sum_list (map val_recon_loss vouts) / real (length vouts)),
                    (''val_kl_loss'', sum_list (map val_kl_div vouts) / real (length vouts))]\<rparr>)
   \<and> (touts \<noteq> [] \<longrightarrow>
        test_epoch_end touts
          = Inr \<lparr>avg_test_loss = sum_list (map test_loss touts) / real (length touts),
                 test_log =
                   [(''test_elbo_loss'', sum_list (map test_loss touts) / real (length touts)),
                    (''test_recon_loss'',
                       sum_list (map test_recon_loss touts) / real (length touts)),
                    (''test_kl_loss'', sum_list (map test_kl_div touts) / real (length touts))]\<rparr>
        \<and> test_epoch_end_template touts = test_epoch_end touts)"
proof -
  have e1: "validation_epoch_end [] = Inl Stack_empty"
    by (simp add: validation_epoch_end_def stack_mean_empty)
  have e2: "test_epoch_end [] = Inl Stack_empty"
    by (simp add: test_epoch_end_def stack_mean_empty)
  have e3: "test_epoch_end_template [] = Inl Stack_empty"
    by (simp add: test_epoch_end_template_def stack_mean_empty)
  have v: "validation_epoch_end vouts
          = Inr \<lparr>avg_val_loss = sum_list (map val_loss vouts) / real (length vouts),
                 val_log =
                   [(''val_elbo_loss'', sum_list (map val_loss vouts) / real (length vouts)),
                    (''val_recon_loss'',
                       sum_list (map val_recon_loss vouts) / real (length vouts)),
                    (''val_kl_loss'', sum_list (map val_kl_div vouts) / real (length vouts))]\<rparr>"
    if "vouts \<noteq> []"
    using that unfolding validation_epoch_end_def by (simp add: stack_mean_nonempty)
  have t: "test_epoch_end touts
          = Inr \<lparr>avg_test_loss = sum_list (map test_loss touts) / real (length touts),
                 test_log =
                   [(''test_elbo_loss'', sum_list (map test_loss touts) / real (length touts)),
                    (''test_recon_loss'',
                       sum_list (map test_recon_loss touts) / real (length touts)),
                    (''test_kl_loss'', sum_list (map test_kl_div touts) / real (length touts))]\<rparr>"
    if "touts \<noteq> []"
    using that unfolding test_epoch_end_def by (simp add: stack_mean_nonempty)
  have t': "test_epoch_end_template touts = test_epoch_end touts"
    by (simp add: test_epoch_end_template_def test_epoch_end_def)
  have n1: "\<forall>res. validation_epoch_end vouts = Inr res \<longrightarrow> vouts \<noteq> []"
    using e1 by auto
  have n2: "\<forall>res. test_epoch_end touts = Inr res \<longrightarrow> touts \<noteq> []"
    using e2 by auto
  show ?thesis
    using e1 e2 e3 v t t' n1 n2 by blast
qed

theorem epoch_end_empty_fails_witness:
  "validation_epoch_end [\<lparr>val_loss = 3, val_recon_loss = 2, val_kl_div = 1, val_pxz = []\<rparr>,
                         \<lparr>val_loss = 5, val_recon_loss = 3, val_kl_div = 2, val_pxz = []\<rparr>]
     = Inr \<lparr>avg_val_loss = 4,
            val_log = [(''val_elbo_loss'', 4), (''val_recon_loss'', 5 / 2),
                       (''val_kl_loss'', 3 / 2)]\<rparr>
   \<and> test_epoch_end [\<lparr>test_loss = 3, test_recon_loss = 2, test_kl_div = 1, test_pxz = []\<rparr>,
                     \<lparr>test_loss = 5, test_recon_loss = 3, test_kl_div = 2, test_pxz = []\<rparr>]
     = Inr \<lparr>avg_test_loss = 4,
            test_log = [(''test_elbo_loss'', 4), (''test_recon_loss'', 5 / 2),
                        (''test_kl_loss'', 3 / 2)]\<rparr>"
  using epoch_end_empty_fails
    [of "[\<lparr>val_loss = 3, val_recon_loss = 2, val_kl_div = 1, val_pxz = []\<rparr>,
          \<lparr>val_loss = 5, val_recon_loss = 3, val_kl_div = 2, val_pxz = []\<rparr>]"
        "[\<lparr>test_loss = 3, test_recon_loss = 2, test_kl_div = 1, test_pxz = []\<rparr>,
          \<lparr>test_loss = 5, test_recon_loss = 3, test_kl_div = 2, test_pxz = []\<rparr>]"]
  by simp

section \<open>The end-to-end scenario\<close>

text \<open>
  Claim C3. With the encoder stub (mean 0 and log-variance 0, two latent dimensions) and
  the decoder stub (0.5 for each of 16 pixels), a step on a batch of 4 images of 16 pixels
  each returns the reconstruction loss \<open>16 * (- ln 0.5)\<close>, the KL term 0 and the loss
  \<open>16 * (- ln 0.5)\<close>, whatever the noise: the posterior is the prior, every per-sample
  reconstruction loss is \<open>16 * (- ln 0.5)\<close> and every per-sample KL term is 0. The
  value \<open>16 * (- ln 0.5)\<close> is within 0.01 of 11.09. The values of the pixels do not
  matter, so the hypothesis that they lie in [0, 1] is not needed.
\<close>

theorem run_step_stub_scenario:
  assumes len: "length x = 4"
    and pix: "\<forall>img \<in> set x. length (flatten_image img) = 16"
  shows "run_step stub_encoder stub_decoder eps (x, labels)
           = Inr (16 * (- ln (1 / 2)), 16 * (- ln (1 / 2)), 0,
                  replicate 4 (replicate 16 (1 / 2)))
       \<and> (\<exists>P Q z. step_distributions stub_encoder x = Inr (P, Q) \<and> Q = P \<and>
             rsample eps Q = Inr z \<and>
             (\<forall>i<4. per_sample_recon (replicate 4 (replicate 16 (1 / 2)))
                        (map flatten_image x) i = 16 * (- ln (1 / 2))
                    \<and> single_sample_kl Q P z i = 0))
       \<and> \<bar>16 * (- ln (1 / 2 :: real)) - 1109 / 100\<bar> < 1 / 100"
proof (intro conjI)
  let ?D = "\<lparr>loc = map (\<lambda>_. [0, 0]) x, scale = map (\<lambda>_. [1, 1 :: real]) x\<rparr>"
  let ?xf = "map flatten_image x"
  have ne: "x \<noteq> []"
    using len by auto
  have rows: "\<forall>row \<in> set ?xf. length row = 16"
    using pix by simp
  have vf: "view_flat x = Inr ?xf"
    using ne by (simp add: view_flat_def)
  have el: "elbo_loss stub_decoder eps ?xf ?D ?D
              = Inr (16 * (- ln (1 / 2)), 16 * (- ln (1 / 2)), 0,
                     replicate (length x) (replicate 16 (1 / 2)))"
    by (rule elbo_loss_stub [OF _ ne rows refl]) simp
  show "run_step stub_encoder stub_decoder eps (x, labels)
           = Inr (16 * (- ln (1 / 2)), 16 * (- ln (1 / 2)), 0,
                  replicate 4 (replicate 16 (1 / 2)))"
    by (simp add: run_step_def stub_step_distributions vf el len)
  have "same_shape (loc ?D) (scale ?D)"
    by (simp add: same_shape_const_rows)
  then obtain z where z: "rsample eps ?D = Inr z"
    by (simp add: rsample_def)
  have per: "per_sample_recon (replicate 4 (replicate 16 (1 / 2))) ?xf i = 16 * (- ln (1 / 2))"
    if i: "i < 4" for i
  proof -
    have "length (?xf ! i) = 16"
      using rows i len by simp
    then show ?thesis
      using i by (simp add: per_sample_recon_def bce_elem_half)
  qed
  have "single_sample_kl ?D ?D z i = 0" for i
    by (simp add: single_sample_kl_def)
  with per z stub_step_distributions [of x]
  show "\<exists>P Q z. step_distributions stub_encoder x = Inr (P, Q) \<and> Q = P \<and>
             rsample eps Q = Inr z \<and>
             (\<forall>i<4. per_sample_recon (replicate 4 (replicate 16 (1 / 2)))
                        (map flatten_image x) i = 16 * (- ln (1 / 2))
                    \<and> single_sample_kl Q P z i = 0)"
    by blast
  show "\<bar>16 * (- ln (1 / 2 :: real)) - 1109 / 100\<bar> < 1 / 100"
    by (rule recon_value_approx)
qed

theorem run_step_stub_scenario_witness:
  "run_step stub_encoder stub_decoder (\<lambda>i j. real i + real j)
     (replicate 4 [[[0, 1, 1 / 2, 1 / 4], [0, 1, 1 / 2, 1 / 4],
                    [0, 1, 1 / 2, 1 / 4], [0, 1, 1 / 2, 1 / 4]]], [0 :: nat, 1, 2, 3])
     = Inr (16 * (- ln (1 / 2)), 16 * (- ln (1 / 2)), 0, replicate 4 (replicate 16 (1 / 2)))"
proof -
  let ?img = "[[[0, 1, 1 / 2, 1 / 4], [0, 1, 1 / 2, 1 / 4],
                [0, 1, 1 / 2, 1 / 4], [0, 1, 1 / 2, 1 / 4 :: real]]]"
  have len: "length (replicate 4 ?img) = 4"
    by simp
  have pix: "\<forall>img \<in> set (replicate 4 ?img). length (flatten_image img) = 16"
    by (simp add: flatten_image_def)
  show ?thesis
    using run_step_stub_scenario [OF len pix, of "\<lambda>i j. real i + real j" "[0 :: nat, 1, 2, 3]"]
    by (rule conjunct1)
qed

section \<open>Determinism and the input batch\<close>

text \<open>
  Claim C9. Two runs of \<^verbatim>\<open>_run_step\<close> on the same batch with the same generator state
  (the same seed, hence the same noise), the same encoder and the same decoder give the
  same result: the same failure, or the same values of loss, reconstruction loss, KL term
  and reconstruction, whatever else the two stores hold. A run that returns leaves the
  batch, and every other cell that existed before it, unchanged; so a second run after
  re-seeding, on the store the first run left, gives the result of the first.
\<close>

theorem run_step_deterministic_no_mutation:
  assumes b1: "cells s1 hx1 = Some (Img x)" and l1: "hx1 < fresh s1"
    and b2: "cells s2 hx2 = Some (Img x)" and l2: "hx2 < fresh s2"
    and seed: "gen s1 = gen s2"
  shows "outcome (run_step_st encoder decoder randn (hx1, hl1) s1)
           = outcome (run_step_st encoder decoder randn (hx2, hl2) s2)
       \<and> (\<forall>out s1'. run_step_st encoder decoder randn (hx1, hl1) s1 = Inr (out, s1') \<longrightarrow>
             cells s1' hx1 = Some (Img x) \<and>
             (\<forall>a<fresh s1. cells s1' a = cells s1 a) \<and>
             outcome (run_step_st encoder decoder randn (hx1, hl1) (manual_seed (gen s1) s1'))
               = outcome (run_step_st encoder decoder randn (hx1, hl1) s1))"
proof -
  have o1: "outcome (run_step_st encoder decoder randn (hx1, hl1) s1)
              = run_step encoder decoder (fst (randn (gen s1))) (x, ())"
    by (rule run_step_st_outcome [OF b1 l1])
  have o2: "outcome (run_step_st encoder decoder randn (hx2, hl2) s2)
              = run_step encoder decoder (fst (randn (gen s2))) (x, ())"
    by (rule run_step_st_outcome [OF b2 l2])
  have same_outcome: "outcome (run_step_st encoder decoder randn (hx1, hl1) s1)
           = outcome (run_step_st encoder decoder randn (hx2, hl2) s2)"
    using o1 o2 seed by simp
  have after: "cells s1' hx1 = Some (Img x) \<and>
             (\<forall>a<fresh s1. cells s1' a = cells s1 a) \<and>
             outcome (run_step_st encoder decoder randn (hx1, hl1) (manual_seed (gen s1) s1'))
               = outcome (run_step_st encoder decoder randn (hx1, hl1) s1)"
    if run: "run_step_st encoder decoder randn (hx1, hl1) s1 = Inr (out, s1')" for out s1'
  proof -
    have "keeps s1 (run_step_st encoder decoder randn (hx1, hl1) s1)"
      by (rule run_step_st_keeps [OF l1])
    then have fr: "fresh s1 \<le> fresh s1'" and same: "\<forall>a<fresh s1. cells s1' a = cells s1 a"
      using run by (simp_all add: keeps_def)
    have b1': "cells s1' hx1 = Some (Img x)"
      using same l1 b1 by simp
    let ?s = "manual_seed (gen s1) s1'"
    have b: "cells ?s hx1 = Some (Img x)" and l: "hx1 < fresh ?s" and g: "gen ?s = gen s1"
      using b1' l1 fr by (simp_all add: manual_seed_def)
    have "outcome (run_step_st encoder decoder randn (hx1, hl1) ?s)
            = run_step encoder decoder (fst (randn (gen ?s))) (x, ())"
      by (rule run_step_st_outcome [OF b l])
    then have "outcome (run_step_st encoder decoder randn (hx1, hl1) ?s)
                 = outcome (run_step_st encoder decoder randn (hx1, hl1) s1)"
      using o1 g by simp
    with b1' same show ?thesis
      by blast
  qed
  show ?thesis
    using same_outcome after by blast
qed

theorem run_step_deterministic_no_mutation_witness:
  "outcome (run_step_st (\<lambda>x. Inr (map (\<lambda>_. [0]) x, map (\<lambda>_. [0]) x))
              (\<lambda>z. Inr (map (\<lambda>_. [1]) z)) (\<lambda>g. (\<lambda>i j. real g, Suc g)) (0, 1)
              \<lparr>cells = (\<lambda>a. None)(0 := Some (Img [[[[1]]]]), 1 := Some (Vec [7])),
               fresh = 2, gen = 5\<rparr>)
     = outcome (run_step_st (\<lambda>x. Inr (map (\<lambda>_. [0]) x, map (\<lambda>_. [0]) x))
              (\<lambda>z. Inr (map (\<lambda>_. [1]) z)) (\<lambda>g. (\<lambda>i j. real g, Suc g)) (3, 0)
              \<lparr>cells = (\<lambda>a. None)(0 := Some (Vec [7]), 3 := Some (Img [[[[1]]]])),
               fresh = 9, gen = 5\<rparr>)
   \<and> outcome (run_step_st (\<lambda>x. Inr (map (\<lambda>_. [0]) x, map (\<lambda>_. [0]) x))
              (\<lambda>z. Inr (map (\<lambda>_. [1]) z)) (\<lambda>g. (\<lambda>i j. real g, Suc g)) (0, 1)
              \<lparr>cells = (\<lambda>a. None)(0 := Some (Img [[[[1]]]]), 1 := Some (Vec [7])),
               fresh = 2, gen = 5\<rparr>)
     = Inr (0, 0, 0, [[1]])"
proof -
  let ?s1 = "\<lparr>cells = (\<lambda>a. None)(0 := Some (Img [[[[1]]]]), 1 := Some (Vec [7])),
              fresh = 2, gen = 5\<rparr>"
  let ?s2 = "\<lparr>cells = (\<lambda>a. None)(0 := Some (Vec [7]), 3 := Some (Img [[[[1]]]])),
              fresh = 9, gen = 5\<rparr>"
  have b1: "cells ?s1 0 = Some (Img [[[[1]]]])" and l1: "0 < fresh ?s1"
    and b2: "cells ?s2 3 = Some (Img [[[[1]]]])" and l2: "3 < fresh ?s2"
    and seed: "gen ?s1 = gen ?s2"
    by simp_all
  have val: "outcome (run_step_st (\<lambda>x. Inr (map (\<lambda>_. [0]) x, map (\<lambda>_. [0]) x))
              (\<lambda>z. Inr (map (\<lambda>_. [1]) z)) (\<lambda>g. (\<lambda>i j. real g, Suc g)) (0, 1) ?s1)
            = Inr (0, 0, 0, [[1]])"
    using run_step_st_outcome [OF b1 l1, of "\<lambda>x. Inr (map (\<lambda>_. [0]) x, map (\<lambda>_. [0]) x)"
        "\<lambda>z. Inr (map (\<lambda>_. [1]) z)" "\<lambda>g. (\<lambda>i j. real g, Suc g)" 1 "()"]
      run_step_example
    by simp
  show ?thesis
    using run_step_deterministic_no_mutation [OF b1 l1 b2 l2 seed,
        of "\<lambda>x. Inr (map (\<lambda>_. [0]) x, map (\<lambda>_. [0]) x)" "\<lambda>z. Inr (map (\<lambda>_. [1]) z)"
           "\<lambda>g. (\<lambda>i j. real g, Suc g)" 1 0]
      val
    by blast
qed

section \<open>The two classes\<close>

text \<open>
  Claim C10. The class of template.py and the class of basic\_vae\_module.py agree on
  the step: \<open>get_prior\<close>, \<open>get_approx_posterior\<close>, \<open>forward\<close>, \<open>elbo_loss\<close> and
  \<open>_run_step\<close> return equal results for the same encoder, decoder, noise and batch.
\<close>

theorem template_step_equivalent:
  "get_prior_template z_mu z_std = get_prior z_mu z_std
   \<and> get_approx_posterior_template z_mu z_std = get_approx_posterior z_mu z_std
   \<and> forward_template decoder z = forward decoder z
   \<and> elbo_loss_template decoder eps x P Q = elbo_loss decoder eps x P Q
   \<and> run_step_template encoder decoder eps batch = run_step encoder decoder eps batch"
proof -
  have gp: "get_prior_template = get_prior"
    by (intro ext) (simp add: get_prior_template_def get_prior_def)
  have gq: "get_approx_posterior_template = get_approx_posterior"
    by (intro ext) (simp add: get_approx_posterior_template_def get_approx_posterior_def)
  have fw: "forward_template = forward"
    by (intro ext) (simp add: forward_template_def forward_def)
  have el: "elbo_loss_template = elbo_loss"
    by (intro ext) (simp add: elbo_loss_template_def elbo_loss_def fw)
  have rs: "run_step_template encoder decoder eps batch = run_step encoder decoder eps batch"
  proof (cases batch)
    case (Pair xb lb)
    show ?thesis
    proof (cases "encoder xb")
      case (Inl e)
      then show ?thesis
        by (simp add: Pair run_step_template_def run_step_def step_distributions_def)
    next
      case (Inr mv)
      obtain z_mu z_log_var where mv: "mv = (z_mu, z_log_var)"
        by (cases mv)
      show ?thesis
      proof (cases "get_prior z_mu (z_std_of z_log_var)")
        case Inl
        then show ?thesis
          using Inr mv
          by (simp add: Pair run_step_template_def run_step_def step_distributions_def
                gp gq el z_std_of_def)
      next
        case (Inr Pv)
        note P = this
        show ?thesis
        proof (cases "get_approx_posterior z_mu (z_std_of z_log_var)")
          case Inl
          then show ?thesis
            using \<open>encoder xb = Inr mv\<close> mv P
            by (simp add: Pair run_step_template_def run_step_def step_distributions_def
                  gp gq el z_std_of_def)
        next
          case (Inr Qv)
          then show ?thesis
            using \<open>encoder xb = Inr mv\<close> mv P
            by (simp add: Pair run_step_template_def run_step_def step_distributions_def
                  gp gq el z_std_of_def)
        qed
      qed
    qed
  qed
  show ?thesis
    using rs by (simp add: gp gq fw el)
qed

end
